theory Spec2Isabelle
  imports Main
begin

section \<open>Python values and errors\<close>

text \<open>
  The exceptions of Python that the modelled functions can raise. A function that can
  raise returns \<open>py_error + 'a\<close>, with \<open>Inl\<close> for the exception.
\<close>

datatype py_error = AttributeError | IndexError | OverflowError | TypeError | ValueError

text \<open>
  The Python values that reach the modelled functions where the source leaves the type
  open: \<open>None\<close>, a \<open>str\<close>, a \<open>bytes\<close> object (a C string of the library) and an
  \<open>int\<close>. Texts are taken over the ASCII range, where the UTF-8 encoding of a \<open>str\<close> has
  the same characters as the \<open>str\<close>; the character tables below are Python's for that range.
\<close>

datatype py_value = PyNone | PyStr string | PyBytes string | PyInt int

text \<open>\<open>ast_tools.to_c_string\<close>: \<open>text.encode(ENCODING)\<close>; only a \<open>str\<close> has \<open>encode\<close>.\<close>

fun to_c_string :: "py_value \<Rightarrow> py_error + py_value" where
  "to_c_string (PyStr s) = Inr (PyBytes s)"
| "to_c_string v = Inl AttributeError"

text \<open>\<open>ast_tools.from_c_string\<close>: \<open>text.decode(ENCODING)\<close>; only \<open>bytes\<close> has \<open>decode\<close>.\<close>

fun from_c_string :: "py_value \<Rightarrow> py_error + py_value" where
  "from_c_string (PyBytes b) = Inr (PyStr b)"
| "from_c_string v = Inl AttributeError"

text \<open>Python's \<open>str(n)\<close> of an \<open>int\<close>, as \<open>str.format\<close> writes it: decimal digits.\<close>

definition digit_char :: "nat \<Rightarrow> char" where
  "digit_char d = ''0123456789'' ! d"

fun str_nat :: "nat \<Rightarrow> string" where
  "str_nat n = (if n < 10 then [digit_char n] else str_nat (n div 10) @ [digit_char (n mod 10)])"

definition str_int :: "int \<Rightarrow> string" where
  "str_int i = (if i < 0 then CHR ''-'' # str_nat (nat (- i)) else str_nat (nat i))"

text \<open>
  \<open>str.isspace\<close> of one character, which is also the class \<open>\s\<close> of \<open>re\<close> and what
  \<open>str.strip()\<close> removes: tab, newline, vertical tab, form feed, carriage return, the
  separators 0x1C..0x1F and the space.
\<close>

definition is_space :: "char \<Rightarrow> bool" where
  "is_space c = (let k = (of_char c :: nat) in (9 \<le> k \<and> k \<le> 13) \<or> (28 \<le> k \<and> k \<le> 32))"

text \<open>The class \<open>\w\<close> of \<open>re\<close>: letters, digits and the underscore.\<close>

definition is_word :: "char \<Rightarrow> bool" where
  "is_word c = (let k = (of_char c :: nat) in
     (48 \<le> k \<and> k \<le> 57) \<or> (65 \<le> k \<and> k \<le> 90) \<or> k = 95 \<or> (97 \<le> k \<and> k \<le> 122))"

text \<open>\<open>str.lower\<close> of one character.\<close>

definition lower_char :: "char \<Rightarrow> char" where
  "lower_char c = (let k = (of_char c :: nat) in if 65 \<le> k \<and> k \<le> 90 then char_of (k + 32) else c)"

text \<open>\<open>str.replace(old, new)\<close> for one-character strings.\<close>

definition replace_char :: "char \<Rightarrow> char \<Rightarrow> string \<Rightarrow> string" where
  "replace_char old new s = map (\<lambda>c. if c = old then new else c) s"

text \<open>\<open>str.strip()\<close>: whitespace removed at both ends.\<close>

definition py_strip :: "string \<Rightarrow> string" where
  "py_strip s = rev (dropWhile is_space (rev (dropWhile is_space s)))"

text \<open>
  \<open>str.split(sep)\<close> for a non-empty separator: the pieces between the occurrences of
  \<open>sep\<close>, found from left to right without overlap. \<open>acc\<close> holds the piece being read,
  reversed.
\<close>

function split_acc :: "string \<Rightarrow> string \<Rightarrow> string \<Rightarrow> string list" where
  "split_acc sep acc s =
     (if s = [] then [rev acc]
      else if sep \<noteq> [] \<and> take (length sep) s = sep
           then rev acc # split_acc sep [] (drop (length sep) s)
           else split_acc sep (hd s # acc) (tl s))"
  by pat_completeness auto
termination
  by (relation "measure (\<lambda>(sep, acc, s). length s)") (auto simp: neq_Nil_conv)

definition py_split :: "string \<Rightarrow> string \<Rightarrow> string list" where
  "py_split sep s = split_acc sep [] s"

text \<open>
  An index handed to a method of \<open>list\<close> is converted to a C \<open>ssize_t\<close>, of 64 bits
  on the platforms the library is built for; an \<open>int\<close> outside that range is an
  \<open>OverflowError\<close>.
\<close>

definition fits_ssize :: "int \<Rightarrow> bool" where
  "fits_ssize i = (- (2 ^ 63) \<le> i \<and> i < 2 ^ 63)"

text \<open>
  \<open>list.insert(index, item)\<close>: a negative index counts from the end, and an index out of
  the range of the list is moved to the nearest end.
\<close>

definition list_insert :: "int \<Rightarrow> 'a \<Rightarrow> 'a list \<Rightarrow> py_error + 'a list" where
  "list_insert i x xs =
     (if fits_ssize i then
        (let n = int (length xs);
             j = (if i < 0 then max 0 (n + i) else min i n)
         in Inr (take (nat j) xs @ [x] @ drop (nat j) xs))
      else Inl OverflowError)"

text \<open>
  \<open>list.pop(index)\<close>: the argument must be an integer (anything else is a
  \<open>TypeError\<close>, raised before the list is looked at); a negative index counts from the
  end; an index out of the range of the list is an \<open>IndexError\<close>. Returns the item and the
  list without it.
\<close>

fun list_pop :: "'a list \<Rightarrow> py_value \<Rightarrow> py_error + ('a \<times> 'a list)" where
  "list_pop xs (PyInt i) =
     (if fits_ssize i then
        (let n = int (length xs);
             j = (if i < 0 then n + i else i)
         in if 0 \<le> j \<and> j < n
            then Inr (xs ! nat j, take (nat j) xs @ drop (Suc (nat j)) xs)
            else Inl IndexError)
      else Inl OverflowError)"
| "list_pop xs v = Inl TypeError"

section \<open>The document tree (\<open>_wrapper_cmark_gfm.py\<close>, \<open>ast_tools.py\<close>)\<close>

text \<open>
  The node types of \<open>_wrapper_cmark_gfm.py\<close> (\<open>NODE_DOCUMENT\<close> ... \<open>NODE_TABLE_ROW\<close>).
\<close>

datatype node_type =
    NODE_NONE
  | NODE_DOCUMENT | NODE_BLOCK_QUOTE | NODE_LIST | NODE_ITEM | NODE_CODE_BLOCK
  | NODE_HTML_BLOCK | NODE_CUSTOM_BLOCK | NODE_PARAGRAPH | NODE_HEADING
  | NODE_THEMATIC_BREAK | NODE_FOOTNOTE_DEFINITION
  | NODE_TEXT | NODE_SOFTBREAK | NODE_LINEBREAK | NODE_CODE | NODE_HTML_INLINE
  | NODE_CUSTOM_INLINE | NODE_EMPH | NODE_STRONG | NODE_LINK | NODE_IMAGE
  | NODE_FOOTNOTE_REFERENCE
  | NODE_STRIKETHROUGH | NODE_TABLE | NODE_TABLE_CELL | NODE_TABLE_ROW

text \<open>
  A node of the tree, which lives in the C library behind the wrapper: its type, its
  heading level (meaningful for a heading), its literal string content (text, code and
  html nodes), the line it starts at, and its children from left to right.
\<close>

datatype node =
  Node (node_get_type: node_type) (heading_level: int) (literal: string)
       (node_get_start_line: int) (children: "node list")

text \<open>\<open>ast_tools.get_heading_level\<close>: the heading level of node, or 0 if node is not a heading.\<close>

definition get_heading_level :: "node \<Rightarrow> int" where
  "get_heading_level n = (if node_get_type n = NODE_HEADING then heading_level n else 0)"

text \<open>\<open>ast_tools.get_start_line\<close>.\<close>

definition get_start_line :: "node \<Rightarrow> int" where
  "get_start_line n = node_get_start_line n"

text \<open>
  Modelled from the spec: \<open>cmark_node_set_heading_level\<close> of the C library, which
  \<open>ast_tools.set_heading_level\<close> hands the node to, is not among the sources. The data
  model gives a heading a level in 1..6 and the docstring of the wrapper says "integer
  between 1 and 6 ... 0 on failure, 1 on success", so the level is stored when the node is
  a heading and the level is in 1..6, and the node is left as it is otherwise. The Python
  callers ignore the status, so only the node is returned.
\<close>

definition set_heading_level :: "node \<Rightarrow> int \<Rightarrow> node" where
  "set_heading_level n level =
     (if node_get_type n = NODE_HEADING \<and> 1 \<le> level \<and> level \<le> 6
      then Node (node_get_type n) level (literal n) (node_get_start_line n) (children n)
      else n)"

text \<open>
  Modelled from the spec: the iterator behind \<open>ast_tools.walk\<close> is the C library's and
  not among the sources. \<open>walk\<close> yields the events \<open>(node, entering, node_type)\<close> of the
  tree walker, a pre-order, depth-first traversal in which a node emits Enter, then the
  events of its children from left to right, then Exit. The loops of \<open>processors.py\<close>
  look only at the Exit and Enter events of headings and at the Enter events of text
  nodes.
\<close>

fun walk :: "node \<Rightarrow> (node \<times> bool \<times> node_type) list" where
  "walk (Node ty lv lit ln cs) =
     [(Node ty lv lit ln cs, True, ty)] @ concat (map walk cs) @ [(Node ty lv lit ln cs, False, ty)]"

section \<open>The heading-level clamp (\<open>processors.MaxHeadingLevel\<close>)\<close>

text \<open>
  \<open>MaxHeadingLevel.enforce_max_heading_level\<close>: the loop over \<open>walk(root_node)\<close> acts at
  the Enter event of every heading. It changes only the level of the node it is at, so the
  traversal is the pre-order recursion over the tree; the first \<open>raise\<close> ends the loop.
  \<^verbatim>\<open>
    for node, entering, node_type in ast_tools.walk(root_node):
        if entering and node_type == _cmark.NODE_HEADING:
            level = ast_tools.get_heading_level(node)
            if max_level > 6 or max_level < 0:
                raise ValueError('max_level must be between 1 and 6')
            if level > max_level:
                ast_tools.set_heading_level(node, max_level)
  \<close>
\<close>

fun enforce_max_heading_level :: "node \<Rightarrow> int \<Rightarrow> py_error + node"
  and enforce_children :: "node list \<Rightarrow> int \<Rightarrow> py_error + node list" where
  "enforce_max_heading_level (Node ty lv lit ln cs) max_level =
     (if ty = NODE_HEADING then
        (let level = get_heading_level (Node ty lv lit ln cs) in
         if max_level > 6 \<or> max_level < 0 then Inl ValueError
         else
           (let n1 = (if level > max_level
                      then set_heading_level (Node ty lv lit ln cs) max_level
                      else Node ty lv lit ln cs)
            in case enforce_children cs max_level of
                 Inl e \<Rightarrow> Inl e
               | Inr cs1 \<Rightarrow>
                   Inr (Node (node_get_type n1) (heading_level n1) (literal n1)
                          (node_get_start_line n1) cs1)))
      else
        (case enforce_children cs max_level of
           Inl e \<Rightarrow> Inl e
         | Inr cs1 \<Rightarrow> Inr (Node ty lv lit ln cs1)))"
| "enforce_children [] max_level = Inr []"
| "enforce_children (c # cs) max_level =
     (case enforce_max_heading_level c max_level of
        Inl e \<Rightarrow> Inl e
      | Inr c1 \<Rightarrow>
          (case enforce_children cs max_level of
             Inl e \<Rightarrow> Inl e
           | Inr cs1 \<Rightarrow> Inr (c1 # cs1)))"

text \<open>
  \<open>MaxHeadingLevel.process_input(root_node, max_level=6)\<close>: the tree after the run, or the
  exception raised.
\<close>

definition MaxHeadingLevel_process_input :: "node \<Rightarrow> int \<Rightarrow> py_error + node" where
  "MaxHeadingLevel_process_input root_node max_level =
     enforce_max_heading_level root_node max_level"

text \<open>
  The clamp as the specification words it, to compare the loop with: every heading
  whose level exceeds \<open>max_level\<close> gets the level \<open>max_level\<close>, and nothing else of the tree
  changes.
\<close>

fun clamp_levels :: "int \<Rightarrow> node \<Rightarrow> node" where
  "clamp_levels max_level (Node ty lv lit ln cs) =
     Node ty (if ty = NODE_HEADING \<and> lv > max_level then max_level else lv) lit ln
       (map (clamp_levels max_level) cs)"

section \<open>Heading records (\<open>processors.get_headings\<close>, \<open>processors.HeadingCollector\<close>)\<close>

text \<open>
  Modelled from the spec: \<open>cmark_node_get_literal\<close> of the C library is not among the
  sources. It gives the C string of the node's content, or NULL (Python's \<open>None\<close>) for
  a node that has no string content; the data model gives literal string content to text,
  code and html nodes, and the docstring of \<open>ast_tools.get_literal\<close> says "the string
  contents of node, or an empty string if none is set ... None if called on a node that
  does not have string content".
\<close>

definition has_literal :: "node_type \<Rightarrow> bool" where
  "has_literal ty =
     (ty = NODE_TEXT \<or> ty = NODE_CODE \<or> ty = NODE_CODE_BLOCK \<or> ty = NODE_HTML_BLOCK \<or>
      ty = NODE_HTML_INLINE)"

definition node_get_literal :: "node \<Rightarrow> py_value" where
  "node_get_literal n = (if has_literal (node_get_type n) then PyBytes (literal n) else PyNone)"

text \<open>
  \<open>ast_tools.get_literal\<close>:
  \<^verbatim>\<open>
    content = _cmark.node_get_literal(node)
    if content is not None:
        content = from_c_string(content)
    return content
  \<close>
\<close>

definition get_literal :: "node \<Rightarrow> py_error + py_value" where
  "get_literal n =
     (let content = node_get_literal n
      in if content \<noteq> PyNone then from_c_string content else Inr content)"

text \<open>The dictionary \<open>{'level': ..., 'text': ..., 'line_number': ...}\<close> of a heading.\<close>

record heading_info =
  h_level :: int
  h_text :: py_value
  h_line_number :: int

text \<open>
  The inner function \<open>get_heading_info\<close> of the module-level \<open>get_headings\<close>: the loop over
  \<open>walk(node)\<close> returns at the first text node entered; when the loop ends without one
  the function returns \<open>None\<close>.
  \<^verbatim>\<open>
    for cur, entering, node_type in ast_tools.walk(node):
        if entering and node_type == _cmark.NODE_TEXT:
            text = ast_tools.get_literal(cur)
            data = {'level': level, 'text': text, 'line_number': line_no}
            return(data)
  \<close>
\<close>

fun get_heading_info_loop ::
  "int \<Rightarrow> int \<Rightarrow> (node \<times> bool \<times> node_type) list \<Rightarrow> py_error + heading_info option" where
  "get_heading_info_loop level line_no [] = Inr None"
| "get_heading_info_loop level line_no ((cur, entering, node_type) # events) =
     (if entering \<and> node_type = NODE_TEXT then
        (case get_literal cur of
           Inl e \<Rightarrow> Inl e
         | Inr text \<Rightarrow>
             Inr (Some \<lparr>h_level = level, h_text = text, h_line_number = line_no\<rparr>))
      else get_heading_info_loop level line_no events)"

definition get_heading_info :: "node \<Rightarrow> py_error + heading_info option" where
  "get_heading_info n =
     get_heading_info_loop (get_heading_level n) (get_start_line n) (walk n)"

text \<open>
  The module-level \<open>get_headings(document)\<close>: at the Exit event of every heading the
  result of \<open>get_heading_info\<close> is appended to \<open>heads\<close>.
\<close>

fun get_headings_loop ::
  "(node \<times> bool \<times> node_type) list \<Rightarrow> heading_info option list \<Rightarrow>
   py_error + heading_info option list" where
  "get_headings_loop [] heads = Inr heads"
| "get_headings_loop ((n, entering, node_type) # events) heads =
     (if \<not> entering \<and> node_type = NODE_HEADING then
        (case get_heading_info n of
           Inl e \<Rightarrow> Inl e
         | Inr info \<Rightarrow> get_headings_loop events (heads @ [info]))
      else get_headings_loop events heads)"

definition get_headings :: "node \<Rightarrow> py_error + heading_info option list" where
  "get_headings document = get_headings_loop (walk document) []"

text \<open>
  The method \<open>HeadingCollector.get_headings\<close> and its inner \<open>get_heading_info\<close>: the same
  loops, but the dictionary is built with \<open>'text': ast_tools.from_c_string(text)\<close>, where
  \<open>text\<close> is what \<open>ast_tools.get_literal(cur)\<close> returned.
\<close>

fun HeadingCollector_get_heading_info_loop ::
  "int \<Rightarrow> int \<Rightarrow> (node \<times> bool \<times> node_type) list \<Rightarrow> py_error + heading_info option" where
  "HeadingCollector_get_heading_info_loop level line_no [] = Inr None"
| "HeadingCollector_get_heading_info_loop level line_no ((cur, entering, node_type) # events) =
     (if entering \<and> node_type = NODE_TEXT then
        (case get_literal cur of
           Inl e \<Rightarrow> Inl e
         | Inr text \<Rightarrow>
             (case from_c_string text of
                Inl e \<Rightarrow> Inl e
              | Inr decoded \<Rightarrow>
                  Inr (Some \<lparr>h_level = level, h_text = decoded, h_line_number = line_no\<rparr>)))
      else HeadingCollector_get_heading_info_loop level line_no events)"

definition HeadingCollector_get_heading_info :: "node \<Rightarrow> py_error + heading_info option" where
  "HeadingCollector_get_heading_info n =
     HeadingCollector_get_heading_info_loop (get_heading_level n) (get_start_line n) (walk n)"

fun HeadingCollector_get_headings_loop ::
  "(node \<times> bool \<times> node_type) list \<Rightarrow> heading_info option list \<Rightarrow>
   py_error + heading_info option list" where
  "HeadingCollector_get_headings_loop [] heads = Inr heads"
| "HeadingCollector_get_headings_loop ((n, entering, node_type) # events) heads =
     (if \<not> entering \<and> node_type = NODE_HEADING then
        (case HeadingCollector_get_heading_info n of
           Inl e \<Rightarrow> Inl e
         | Inr info \<Rightarrow> HeadingCollector_get_headings_loop events (heads @ [info]))
      else HeadingCollector_get_headings_loop events heads)"

definition HeadingCollector_get_headings :: "node \<Rightarrow> py_error + heading_info option list" where
  "HeadingCollector_get_headings document =
     HeadingCollector_get_headings_loop (walk document) []"

section \<open>The processor registry (\<open>renderers.CommonMark\<close>)\<close>

text \<open>
  An entry \<open>{'name': name, 'processor': processor}\<close> of a registry, and the two hook points
  \<open>'before_parse'\<close> and \<open>'after_parse'\<close>. \<open>self._processors\<close> is a dictionary from the hook
  point to a list of entries, \<open>{'before_parse': [], 'after_parse': []}\<close> at first.
\<close>

record 'p entry =
  entry_name :: string
  entry_processor :: 'p

datatype entrypoint = before_parse | after_parse

type_synonym 'p processors = "entrypoint \<Rightarrow> 'p entry list"

definition CommonMark_init :: "'p processors" where
  "CommonMark_init = (\<lambda>entrypoint. [])"

text \<open>
  \<open>CommonMark._register_processor\<close>:
  \<^verbatim>\<open>
    item = {'name': name, 'processor': processor}
    if index is not None:
        self._processors[entrypoint].insert(index, item)
    else:
        self._processors[entrypoint].append(item)
  \<close>
\<close>

definition register_processor ::
  "'p processors \<Rightarrow> string \<Rightarrow> 'p \<Rightarrow> entrypoint \<Rightarrow> int option \<Rightarrow> py_error + 'p processors" where
  "register_processor procs name processor entrypoint index =
     (let item = \<lparr>entry_name = name, entry_processor = processor\<rparr>
      in case index of
           Some i \<Rightarrow>
             (case list_insert i item (procs entrypoint) of
                Inl e \<Rightarrow> Inl e
              | Inr items \<Rightarrow> Inr (procs(entrypoint := items)))
         | None \<Rightarrow> Inr (procs(entrypoint := procs entrypoint @ [item])))"

definition register_text_processor ::
  "'p processors \<Rightarrow> string \<Rightarrow> 'p \<Rightarrow> int option \<Rightarrow> py_error + 'p processors" where
  "register_text_processor procs name processor index =
     register_processor procs name processor before_parse index"

definition register_ast_processor ::
  "'p processors \<Rightarrow> string \<Rightarrow> 'p \<Rightarrow> int option \<Rightarrow> py_error + 'p processors" where
  "register_ast_processor procs name processor index =
     register_processor procs name processor after_parse index"

text \<open>
  \<open>CommonMark.deregister_text_processor\<close> and \<open>deregister_ast_processor\<close>:
  \<open>return self._processors['before_parse'].pop(name)\<close>, the \<open>pop\<close> of a list called with
  the name, a \<open>str\<close>. The result is the popped entry and the registry after the call.
\<close>

definition deregister_text_processor ::
  "'p processors \<Rightarrow> string \<Rightarrow> py_error + ('p entry \<times> 'p processors)" where
  "deregister_text_processor procs name =
     (case list_pop (procs before_parse) (PyStr name) of
        Inl e \<Rightarrow> Inl e
      | Inr (item, rest) \<Rightarrow> Inr (item, procs(before_parse := rest)))"

definition deregister_ast_processor ::
  "'p processors \<Rightarrow> string \<Rightarrow> py_error + ('p entry \<times> 'p processors)" where
  "deregister_ast_processor procs name =
     (case list_pop (procs after_parse) (PyStr name) of
        Inl e \<Rightarrow> Inl e
      | Inr (item, rest) \<Rightarrow> Inr (item, procs(after_parse := rest)))"

section \<open>The table of contents (\<open>processors.TOCGenerator\<close>)\<close>

text \<open>
  \<open>re.sub(r'\s+', ' ', text)\<close>: every maximal run of whitespace becomes one space.
\<close>

function collapse_spaces :: "string \<Rightarrow> string" where
  "collapse_spaces [] = []"
| "collapse_spaces (c # cs) =
     (if is_space c then CHR '' '' # collapse_spaces (dropWhile is_space cs)
      else c # collapse_spaces cs)"
  by pat_completeness auto
termination
  by (relation "measure length") (auto simp: length_dropWhile_le le_imp_less_Suc)

text \<open>
  \<open>TOCGenerator.slugify\<close>; \<open>text.lower()\<close> needs a \<open>str\<close>.
  \<^verbatim>\<open>
    text = text.lower()
    for c in [' ', '-', '.', '/']:
        text = text.replace(c, '_')
    text = re.sub(r'\W', '', text)
    text = text.replace('_', ' ')
    text = re.sub(r'\s+', ' ', text)
    text = text.strip()
    text = text.replace(' ', '-')
    return text
  \<close>
\<close>

definition slugify_str :: "string \<Rightarrow> string" where
  "slugify_str text0 =
     (let text1 = map lower_char text0;
          text2 = foldl (\<lambda>text c. replace_char c CHR ''_'' text) text1
                    [CHR '' '', CHR ''-'', CHR ''.'', CHR ''/''];
          text3 = filter is_word text2;
          text4 = replace_char CHR ''_'' CHR '' '' text3;
          text5 = collapse_spaces text4;
          text6 = py_strip text5
      in replace_char CHR '' '' CHR ''-'' text6)"

fun slugify :: "py_value \<Rightarrow> py_error + string" where
  "slugify (PyStr text) = Inr (slugify_str text)"
| "slugify v = Inl AttributeError"

text \<open>
  \<open>ast_tools.make_html_node(block=True, content=None)\<close>: a new html block (or html inline)
  node, with \<open>content\<close> as its literal when one is given. A new node has no children and
  no source position.
\<close>

definition make_html_node :: "bool \<Rightarrow> string option \<Rightarrow> node" where
  "make_html_node block content =
     Node (if block then NODE_HTML_BLOCK else NODE_HTML_INLINE) 0
          (case content of Some c \<Rightarrow> c | None \<Rightarrow> []) 0 []"

text \<open>What \<open>str.format\<close> writes for a value: a \<open>str\<close> as it is, \<open>None\<close> as \<open>None\<close>.\<close>

fun format_value :: "py_value \<Rightarrow> string" where
  "format_value (PyStr s) = s"
| "format_value PyNone = ''None''"
| "format_value (PyInt i) = str_int i"
| "format_value (PyBytes b) = ''b'' @ [CHR 0x27] @ b @ [CHR 0x27]"

text \<open>
  The inner loop of \<open>TOCGenerator.set_heading_attributes\<close>, run for a heading whose level
  is not above \<open>max_depth\<close>. It runs over all of \<open>walk(node)\<close>: at every text node entered,
  \<open>text\<close> is set and a dictionary is appended to \<open>headings_list\<close>.
  \<^verbatim>\<open>
    for cur, entering, node_type in ast_tools.walk(node):
        if entering and node_type == _cmark.NODE_TEXT:
            text = ast_tools.get_literal(cur)
            data = {'level': level, 'text': text, 'line_number': line_number}
            headings_list.append(data)
  \<close>
\<close>

fun collect_texts ::
  "int \<Rightarrow> int \<Rightarrow> (node \<times> bool \<times> node_type) list \<Rightarrow> py_value \<Rightarrow> heading_info list \<Rightarrow>
   py_error + (py_value \<times> heading_info list)" where
  "collect_texts level line_number [] text headings_list = Inr (text, headings_list)"
| "collect_texts level line_number ((cur, entering, node_type) # events) text headings_list =
     (if entering \<and> node_type = NODE_TEXT then
        (case get_literal cur of
           Inl e \<Rightarrow> Inl e
         | Inr text1 \<Rightarrow>
             collect_texts level line_number events text1
               (headings_list @
                  [\<lparr>h_level = level, h_text = text1, h_line_number = line_number\<rparr>]))
      else collect_texts level line_number events text headings_list)"

text \<open>
  The body of the outer loop of \<open>set_heading_attributes\<close> at the Exit event of a heading
  \<open>node\<close>: the records are collected when the level is not above \<open>max_depth\<close>; then, when
  \<open>self.inject\<close> holds, the node is replaced by an html node. The result is the node that
  stands at the heading's place afterwards and the new \<open>headings_list\<close>.
  \<^verbatim>\<open>
    level = ast_tools.get_heading_level(node)
    line_number = ast_tools.get_start_line(node)
    text = ''
    if not level > max_depth:
        for cur, entering, node_type in ast_tools.walk(node): ...
    # replace headings in AST with raw html for working toc links
    if self.inject:
        template = '<h{level} id="{_id}">{text}</h{level}>'
        _id = '{}-{}'.format(line_number, self.slugify(text))
        heading = template.format(level=level, _id =_id, text=text)
        new_node =ast_tools.make_html_node(content=heading)
        ast_tools.replace_node(node, new_node)
  \<close>
\<close>

definition heading_exit ::
  "bool \<Rightarrow> int \<Rightarrow> node \<Rightarrow> heading_info list \<Rightarrow> py_error + (node \<times> heading_info list)" where
  "heading_exit inject max_depth n headings_list =
     (let level = get_heading_level n;
          line_number = get_start_line n
      in case (if \<not> level > max_depth
               then collect_texts level line_number (walk n) (PyStr []) headings_list
               else Inr (PyStr [], headings_list)) of
           Inl e \<Rightarrow> Inl e
         | Inr (text, headings_list1) \<Rightarrow>
             if inject then
               (case slugify text of
                  Inl e \<Rightarrow> Inl e
                | Inr slug \<Rightarrow>
                    (let anchor_id = str_int line_number @ ''-'' @ slug;
                         heading = ''<h'' @ str_int level @ '' id='' @ [CHR 0x22] @ anchor_id @
                                   [CHR 0x22] @ ''>'' @
                                   format_value text @ ''</h'' @ str_int level @ ''>'';
                         new_node = make_html_node True (Some heading)
                     in Inr (new_node, headings_list1)))
             else Inr (n, headings_list1))"

text \<open>
  The outer loop of \<open>set_heading_attributes\<close> acts at Exit events only, when the children
  of the node have been walked (and the headings among them replaced), so it is the
  post-order recursion over the tree, threading \<open>headings_list\<close>.
\<close>

fun set_heading_attributes_node ::
  "bool \<Rightarrow> int \<Rightarrow> node \<Rightarrow> heading_info list \<Rightarrow> py_error + (node \<times> heading_info list)"
  and set_heading_attributes_children ::
  "bool \<Rightarrow> int \<Rightarrow> node list \<Rightarrow> heading_info list \<Rightarrow> py_error + (node list \<times> heading_info list)"
  where
  "set_heading_attributes_node inject max_depth (Node ty lv lit ln cs) headings_list =
     (case set_heading_attributes_children inject max_depth cs headings_list of
        Inl e \<Rightarrow> Inl e
      | Inr (cs1, headings_list1) \<Rightarrow>
          if ty = NODE_HEADING
          then heading_exit inject max_depth (Node ty lv lit ln cs1) headings_list1
          else Inr (Node ty lv lit ln cs1, headings_list1))"
| "set_heading_attributes_children inject max_depth [] headings_list = Inr ([], headings_list)"
| "set_heading_attributes_children inject max_depth (c # cs) headings_list =
     (case set_heading_attributes_node inject max_depth c headings_list of
        Inl e \<Rightarrow> Inl e
      | Inr (c1, headings_list1) \<Rightarrow>
          (case set_heading_attributes_children inject max_depth cs headings_list1 of
             Inl e \<Rightarrow> Inl e
           | Inr (cs1, headings_list2) \<Rightarrow> Inr (c1 # cs1, headings_list2)))"

text \<open>
  \<open>TOCGenerator.set_heading_attributes(root_node, max_depth)\<close> with \<open>self.inject\<close> given:
  the tree after the loop and the list returned. \<open>replace_node\<close> works through the parent
  of the node; a root that is itself a heading has none, so the library's replace does
  nothing and \<open>delete_node(old_node)\<close> frees the root: the tree is then \<open>None\<close>.
\<close>

definition set_heading_attributes ::
  "bool \<Rightarrow> node \<Rightarrow> int \<Rightarrow> py_error + (node option \<times> heading_info list)" where
  "set_heading_attributes inject root_node max_depth =
     (case set_heading_attributes_node inject max_depth root_node [] of
        Inl e \<Rightarrow> Inl e
      | Inr (n, headings_list) \<Rightarrow>
          Inr (if inject \<and> node_get_type root_node = NODE_HEADING then None else Some n,
               headings_list))"

text \<open>
  The dictionaries of \<open>nest_toc_items\<close> are shared objects: the list \<open>processed\<close>, the
  \<open>'children'\<close> lists and \<open>parent_list\<close> all hold references to the dictionaries of
  \<open>toc_list\<close>, and \<open>parent_list[-1]['children'].append(item)\<close> changes a dictionary that
  is reachable from \<open>processed\<close>. So a dictionary is named by its address, the index it has
  in the \<open>toc_list\<close> given to the function, and the state of the loop holds the
  \<open>'children'\<close> list of every address next to the local variables.
\<close>

record nest_state =
  children_of :: "nat \<Rightarrow> nat list"
  processed :: "nat list"
  parent_list :: "nat list"
  last_item :: nat
  last_level :: int

text \<open>A dictionary with its \<open>'children'\<close>, as a value: what \<open>==\<close> on dictionaries compares.\<close>

datatype toc_item = Toc (item_info: heading_info) (item_children: "toc_item list")

text \<open>
  The value of the dictionary at address \<open>a\<close>. A child is appended to a dictionary that
  stands earlier in \<open>toc_list\<close>, so its address is larger than its parent's; the test
  \<open>a < c \<and> c < length toc_list\<close> only makes the recursion total for every store.
\<close>

function item_value :: "heading_info list \<Rightarrow> (nat \<Rightarrow> nat list) \<Rightarrow> nat \<Rightarrow> toc_item" where
  "item_value toc_list kids a =
     Toc (toc_list ! a)
       (map (item_value toc_list kids) (filter (\<lambda>c. a < c \<and> c < length toc_list) (kids a)))"
  by pat_completeness auto
termination
  by (relation "measure (\<lambda>(toc_list, kids, a). length toc_list - a)") auto

text \<open>\<open>list.index(x)\<close> for an \<open>x\<close> that is in the list: the first position with an equal value.\<close>

fun index_of :: "('a \<Rightarrow> bool) \<Rightarrow> 'a list \<Rightarrow> nat" where
  "index_of eq [] = 0"
| "index_of eq (x # xs) = (if eq x then 0 else Suc (index_of eq xs))"

text \<open>\<open>list.pop(i)\<close> for a position of the list: the list without it.\<close>

definition pop_at :: "nat \<Rightarrow> 'a list \<Rightarrow> 'a list" where
  "pop_at i xs = take i xs @ drop (Suc i) xs"

text \<open>
  The loop that drops parents,
  \<^verbatim>\<open>
    for parent in reversed(parent_list):
        if level <= parent['level']:
            parent_list.pop(parent_list.index(parent))
  \<close>
  The iterator of \<open>reversed\<close> holds an index, which starts at the last position and goes
  down by one at each step, and it stops for good when the index is not a position of the
  list (as that is at that moment). \<open>pop_parents eq lv level n ps\<close> is the loop with the index
  at \<open>n - 1\<close> and the list \<open>ps\<close>; \<open>eq a b\<close> says that the dictionaries at \<open>a\<close> and \<open>b\<close> are
  equal as values, and \<open>lv\<close> gives the level of the dictionary at an address.
\<close>

fun pop_parents :: "(nat \<Rightarrow> nat \<Rightarrow> bool) \<Rightarrow> (nat \<Rightarrow> int) \<Rightarrow> int \<Rightarrow> nat \<Rightarrow> nat list \<Rightarrow> nat list" where
  "pop_parents eq lv level 0 ps = ps"
| "pop_parents eq lv level (Suc i) ps =
     (if i < length ps then
        (let parent = ps ! i
         in if level \<le> lv parent
            then pop_parents eq lv level i (pop_at (index_of (eq parent) ps) ps)
            else pop_parents eq lv level i ps)
      else ps)"

text \<open>
  One run of the body of the loop \<open>for item in toc_list\<close> of \<open>nest_toc_items\<close>, for the
  dictionary at address \<open>i\<close>:
  \<^verbatim>\<open>
    item['children'] = []
    level = item['level']
    if level < last_level:
        if parent_list:
            for parent in reversed(parent_list): ...
        last_level = level
    if level == last_level:
        if len(parent_list):
            parent_list[-1]['children'].append(item)
        else:
            processed.append(item)
    else:
        last_item['children'].append(item)
        parent_list.append(last_item)
        last_level = level
    last_item = item
  \<close>
\<close>

definition nest_step :: "heading_info list \<Rightarrow> nest_state \<Rightarrow> nat \<Rightarrow> nest_state" where
  "nest_step toc_list s i =
     (let s0 = s\<lparr>children_of := (children_of s)(i := [])\<rparr>;
          level = h_level (toc_list ! i);
          s1 = (if level < last_level s0
                then s0\<lparr>parent_list :=
                          (if parent_list s0 \<noteq> []
                           then pop_parents
                                  (\<lambda>a b. item_value toc_list (children_of s0) a =
                                         item_value toc_list (children_of s0) b)
                                  (\<lambda>a. h_level (toc_list ! a)) level
                                  (length (parent_list s0)) (parent_list s0)
                           else parent_list s0),
                        last_level := level\<rparr>
                else s0);
          s2 = (if level = last_level s1
                then (if length (parent_list s1) \<noteq> 0
                      then s1\<lparr>children_of :=
                                (children_of s1)
                                  (last (parent_list s1) :=
                                     children_of s1 (last (parent_list s1)) @ [i])\<rparr>
                      else s1\<lparr>processed := processed s1 @ [i]\<rparr>)
                else s1\<lparr>children_of :=
                          (children_of s1)(last_item s1 := children_of s1 (last_item s1) @ [i]),
                        parent_list := parent_list s1 @ [last_item s1],
                        last_level := level\<rparr>)
      in s2\<lparr>last_item := i\<rparr>)"

text \<open>
  The state of \<open>nest_toc_items\<close> before the loop, for a \<open>toc_list\<close> that is not empty (the
  first dictionary is popped off the list, gets its \<open>'children'\<close> and starts \<open>processed\<close>),
  and the state after the loop over the other dictionaries.
\<close>

definition nest_init :: "heading_info list \<Rightarrow> nest_state" where
  "nest_init toc_list =
     \<lparr>children_of = (\<lambda>a. []), processed = [0], parent_list = [], last_item = 0,
      last_level = h_level (toc_list ! 0)\<rparr>"

definition nest_final :: "heading_info list \<Rightarrow> nest_state" where
  "nest_final toc_list = foldl (nest_step toc_list) (nest_init toc_list) [1..<length toc_list]"

text \<open>
  \<open>TOCGenerator.nest_toc_items(toc_list)\<close>: the list \<open>processed\<close>, every dictionary with
  its \<open>'children'\<close>.
\<close>

definition nest_toc_items :: "heading_info list \<Rightarrow> toc_item list" where
  "nest_toc_items toc_list =
     (if length toc_list \<noteq> 0
      then map (item_value toc_list (children_of (nest_final toc_list)))
             (processed (nest_final toc_list))
      else [])"

text \<open>
  The nearest heading before position \<open>i\<close> whose level is strictly below \<open>L\<close>, searched
  from \<open>i - 1\<close> down to 0; and for the heading at \<open>i\<close>, the nearest preceding heading of
  strictly lower level. This is the reading of the specification that the loop is
  compared with.
\<close>

fun nearest_below :: "(nat \<Rightarrow> int) \<Rightarrow> int \<Rightarrow> nat \<Rightarrow> nat option" where
  "nearest_below lv L 0 = None"
| "nearest_below lv L (Suc j) = (if lv j < L then Some j else nearest_below lv L j)"

definition nearest_lower :: "heading_info list \<Rightarrow> nat \<Rightarrow> nat option" where
  "nearest_lower toc_list i =
     nearest_below (\<lambda>a. h_level (toc_list ! a)) (h_level (toc_list ! i)) i"

text \<open>
  The headings that are open before position \<open>i\<close> for a heading of level \<open>L\<close>: the
  nearest earlier heading with a level below \<open>L\<close>, before it the nearest earlier heading
  with a level below that one's, and so on, the outermost first.
\<close>

fun open_parents :: "(nat \<Rightarrow> int) \<Rightarrow> int \<Rightarrow> nat \<Rightarrow> nat list" where
  "open_parents lv L 0 = []"
| "open_parents lv L (Suc j) =
     (if lv j < L then open_parents lv (lv j) j @ [j] else open_parents lv L j)"

text \<open>
  The state that the specification's reading gives after the headings at the addresses
  \<open>0..m\<close>: every heading is a child of the nearest preceding heading of strictly lower
  level, or a root when there is none, and the open parents are those of the heading at
  \<open>m\<close>.
\<close>

definition nest_expected :: "(nat \<Rightarrow> int) \<Rightarrow> nat \<Rightarrow> nest_state" where
  "nest_expected lv m =
     \<lparr>children_of = (\<lambda>j. filter (\<lambda>k. nearest_below lv (lv k) k = Some j) [0..<Suc m]),
      processed = filter (\<lambda>k. nearest_below lv (lv k) k = None) [0..<Suc m],
      parent_list = open_parents lv (lv m) m,
      last_item = m,
      last_level = lv m\<rparr>"

section \<open>The metadata extractor (\<open>processors.ExtractMetadata\<close>)\<close>

text \<open>
  The regular expressions of \<open>re\<close> that the pattern of \<open>process_input\<close> is made of: one
  character of a class, \<open>^\<close> under \<open>re.MULTILINE\<close>, a sequence, the greedy \<open>*\<close>, the lazy
  \<open>*?\<close> and a capturing group with its number.
\<close>

datatype regex =
    Chars "char \<Rightarrow> bool"
  | Bol
  | Seq regex regex
  | Star regex
  | LazyStar regex
  | Group nat regex

text \<open>
  A state of the matcher: the position in the text and the spans (start, end) of the
  groups closed so far.
\<close>

record mstate =
  m_pos :: nat
  m_groups :: "nat \<Rightarrow> (nat \<times> nat) option"

text \<open>
  The matcher of \<open>re\<close> is a backtracking matcher: it tries the alternatives in their order
  of priority and takes the first way through the whole pattern. Here a pattern is matched
  against the text from a state, with a continuation \<open>k\<close> for what follows the pattern;
  the result is the final state of the first way that succeeds. A greedy loop tries one
  more round of its body before it goes on, a lazy loop goes on first. A round that does
  not move the position is not repeated, as in \<open>re\<close>. The number \<open>n\<close> of the loops is a
  bound on the rounds still possible: every round moves the position, and \<open>n\<close> starts at
  the number of characters left.
\<close>

primrec greedy_loop ::
  "nat \<Rightarrow> ((mstate \<Rightarrow> mstate option) \<Rightarrow> mstate \<Rightarrow> mstate option) \<Rightarrow>
   (mstate \<Rightarrow> mstate option) \<Rightarrow> mstate \<Rightarrow> mstate option" where
  "greedy_loop 0 body k s = k s"
| "greedy_loop (Suc n) body k s =
     (case body (\<lambda>s1. if m_pos s < m_pos s1 then greedy_loop n body k s1 else None) s of
        Some r \<Rightarrow> Some r
      | None \<Rightarrow> k s)"

primrec lazy_loop ::
  "nat \<Rightarrow> ((mstate \<Rightarrow> mstate option) \<Rightarrow> mstate \<Rightarrow> mstate option) \<Rightarrow>
   (mstate \<Rightarrow> mstate option) \<Rightarrow> mstate \<Rightarrow> mstate option" where
  "lazy_loop 0 body k s = k s"
| "lazy_loop (Suc n) body k s =
     (case k s of
        Some r \<Rightarrow> Some r
      | None \<Rightarrow> body (\<lambda>s1. if m_pos s < m_pos s1 then lazy_loop n body k s1 else None) s)"

primrec rmatch :: "string \<Rightarrow> regex \<Rightarrow> (mstate \<Rightarrow> mstate option) \<Rightarrow> mstate \<Rightarrow> mstate option" where
  "rmatch t (Chars P) k s =
     (if m_pos s < length t \<and> P (t ! m_pos s) then k (s\<lparr>m_pos := Suc (m_pos s)\<rparr>) else None)"
| "rmatch t Bol k s =
     (if m_pos s = 0 \<or> t ! (m_pos s - 1) = CHR 0x0A then k s else None)"
| "rmatch t (Seq r1 r2) k s = rmatch t r1 (rmatch t r2 k) s"
| "rmatch t (Star r) k s = greedy_loop (length t - m_pos s) (rmatch t r) k s"
| "rmatch t (LazyStar r) k s = lazy_loop (length t - m_pos s) (rmatch t r) k s"
| "rmatch t (Group g r) k s =
     rmatch t r (\<lambda>s1. k (s1\<lparr>m_groups := (m_groups s1)(g \<mapsto> (m_pos s, m_pos s1))\<rparr>)) s"

text \<open>
  \<open>matcher.search(text)\<close>: the match at the first start position, from the left, that
  has one, or \<open>None\<close>.
\<close>

primrec search_starts :: "string \<Rightarrow> regex \<Rightarrow> nat list \<Rightarrow> mstate option" where
  "search_starts t r [] = None"
| "search_starts t r (i # starts) =
     (case rmatch t r Some \<lparr>m_pos = i, m_groups = (\<lambda>g. None)\<rparr> of
        Some m \<Rightarrow> Some m
      | None \<Rightarrow> search_starts t r starts)"

definition re_search :: "regex \<Rightarrow> string \<Rightarrow> mstate option" where
  "re_search r t = search_starts t r [0..<Suc (length t)]"

text \<open>\<open>match_obj.group(g)\<close>: the text of the group, or \<open>None\<close> for a group that took no part.\<close>

definition match_group :: "string \<Rightarrow> mstate \<Rightarrow> nat \<Rightarrow> py_value" where
  "match_group t m g =
     (case m_groups m g of
        None \<Rightarrow> PyNone
      | Some (a, b) \<Rightarrow> PyStr (take (b - a) (drop a t)))"

text \<open>
  The pattern of \<open>ExtractMetadata.process_input\<close>, compiled with \<open>re.MULTILINE\<close>:
  \<^verbatim>\<open>(-{3,}[\r\n]((.*\s*[\r\n])+?)^-{3,}[\r\n])((.*[\r\n]*)+)\<close>
  \<open>x{3,}\<close> is three \<open>x\<close> and a greedy \<open>x*\<close>; \<open>(x)+\<close> and \<open>(x)+?\<close> are the group \<open>(x)\<close>
  and a greedy or lazy loop of the same group; \<open>.\<close> is every character but the newline.
\<close>

definition dash :: regex where
  "dash = Chars (\<lambda>c. c = CHR ''-'')"

definition dashes3 :: regex where
  "dashes3 = Seq dash (Seq dash (Seq dash (Star dash)))"

definition crlf :: regex where
  "crlf = Chars (\<lambda>c. c = CHR 0x0D \<or> c = CHR 0x0A)"

definition dot :: regex where
  "dot = Chars (\<lambda>c. c \<noteq> CHR 0x0A)"

definition patern :: regex where
  "patern =
     Seq (Group 1
            (Seq dashes3 (Seq crlf
              (Seq (Group 2
                      (Seq (Group 3 (Seq (Star dot) (Seq (Star (Chars is_space)) crlf)))
                           (LazyStar (Group 3 (Seq (Star dot) (Seq (Star (Chars is_space)) crlf))))))
                   (Seq Bol (Seq dashes3 crlf))))))
         (Group 4
            (Seq (Group 5 (Seq (Star dot) (Star crlf)))
                 (Star (Group 5 (Seq (Star dot) (Star crlf))))))"

text \<open>
  \<open>ExtractMetadata.key_value_to_dict(string, delimiter=None)\<close>; \<open>string.split\<close> needs a
  \<open>str\<close>, and \<open>line[1]\<close> needs a second piece.
  \<^verbatim>\<open>
    delimiter = delimiter or ':'
    data = {}
    lines = string.split('\n')
    for line in lines:
        line = line.strip()
        if line != '':
            line = line.split(delimiter)
            data[line[0]] = line[1]
    return data
  \<close>
\<close>

text \<open>
  A dictionary from \<open>str\<close> to \<open>str\<close>: its items in the order of insertion.
  \<open>data[key] = value\<close> sets the value of a key that is there and adds any other key at
  the end.
\<close>

type_synonym py_dict = "(string \<times> string) list"

fun dict_set :: "py_dict \<Rightarrow> string \<Rightarrow> string \<Rightarrow> py_dict" where
  "dict_set [] key v = [(key, v)]"
| "dict_set ((k, w) # items) key v =
     (if k = key then (k, v) # items else (k, w) # dict_set items key v)"

fun key_value_lines ::
  "string \<Rightarrow> string list \<Rightarrow> py_dict \<Rightarrow> py_error + py_dict" where
  "key_value_lines delimiter [] data = Inr data"
| "key_value_lines delimiter (line # lines) data =
     (let line1 = py_strip line
      in if line1 \<noteq> [] then
           (let line2 = py_split delimiter line1
            in if length line2 < 2 then Inl IndexError
               else key_value_lines delimiter lines (dict_set data (line2 ! 0) (line2 ! 1)))
         else key_value_lines delimiter lines data)"

fun key_value_to_dict ::
  "py_value \<Rightarrow> string option \<Rightarrow> py_error + py_dict" where
  "key_value_to_dict (PyStr string) delimiter =
     (let delimiter1 = (case delimiter of
                          None \<Rightarrow> '':''
                        | Some d \<Rightarrow> if d = [] then '':'' else d)
      in key_value_lines delimiter1 (py_split [CHR 0x0A] string) [])"
| "key_value_to_dict (PyBytes b) delimiter = Inl TypeError"
| "key_value_to_dict v delimiter = Inl AttributeError"

text \<open>
  \<open>ExtractMetadata.process_input(text, loader)\<close>: the pair of \<open>self.data\<close> and
  \<open>self.processed\<close> after the call.
  \<^verbatim>\<open>
    metadata = None
    match_obj = matcher.search(text)
    if match_obj:
        metadata = match_obj.group(2)
        text = match_obj.group(4)
    self.data = loader(metadata, *loader_args, **loader_kwargs)
    self.processed = text
  \<close>
\<close>

definition ExtractMetadata_process_input ::
  "(py_value \<Rightarrow> py_error + 'd) \<Rightarrow> string \<Rightarrow> py_error + ('d \<times> py_value)" where
  "ExtractMetadata_process_input loader text =
     (let match_obj = re_search patern text;
          metadata = (case match_obj of Some m \<Rightarrow> match_group text m 2 | None \<Rightarrow> PyNone);
          text1 = (case match_obj of Some m \<Rightarrow> match_group text m 4 | None \<Rightarrow> PyStr text)
      in case loader metadata of
           Inl e \<Rightarrow> Inl e
         | Inr data \<Rightarrow> Inr (data, text1))"

text \<open>Python's truth value of a value, and \<open>a or b\<close>.\<close>

fun truthy :: "py_value \<Rightarrow> bool" where
  "truthy PyNone = False"
| "truthy (PyStr s) = (s \<noteq> [])"
| "truthy (PyBytes b) = (b \<noteq> [])"
| "truthy (PyInt i) = (i \<noteq> 0)"

definition py_or :: "py_value \<Rightarrow> py_value \<Rightarrow> py_value" where
  "py_or a b = (if truthy a then a else b)"

text \<open>
  \<open>Processor.__call__(doc)\<close> for the metadata extractor: \<open>process_input\<close>, then
  \<open>doc = self.processed or doc\<close> and \<open>return doc, self.data\<close>.
\<close>

definition ExtractMetadata_call ::
  "(py_value \<Rightarrow> py_error + 'd) \<Rightarrow> string \<Rightarrow> py_error + (py_value \<times> 'd)" where
  "ExtractMetadata_call loader doc =
     (case ExtractMetadata_process_input loader doc of
        Inl e \<Rightarrow> Inl e
      | Inr (data, text1) \<Rightarrow> Inr (py_or text1 (PyStr doc), data))"

text \<open>
  The extractor with no loader given: \<open>loader = loader or self.key_value_to_dict\<close>, called
  with the metadata alone.
\<close>

definition ExtractMetadata_default ::
  "string \<Rightarrow> py_error + (py_value \<times> py_dict)" where
  "ExtractMetadata_default doc =
     ExtractMetadata_call (\<lambda>metadata. key_value_to_dict metadata None) doc"

section \<open>Properties of the heading-level clamp\<close>

lemma enforce_zero:
  "enforce_max_heading_level t 0 = Inr t"
  "enforce_children cs 0 = Inr cs"
  by (induction t "0::int" and cs "0::int" rule: enforce_max_heading_level_enforce_children.induct)
     (simp_all add: get_heading_level_def set_heading_level_def Let_def)

lemma enforce_clamp_4:
  "enforce_max_heading_level t 4 = Inr (clamp_levels 4 t)"
  "enforce_children cs 4 = Inr (map (clamp_levels 4) cs)"
  by (induction t "4::int" and cs "4::int" rule: enforce_max_heading_level_enforce_children.induct)
     (simp_all add: get_heading_level_def set_heading_level_def Let_def)

lemma clamp_levels_idem:
  "clamp_levels m (clamp_levels m t) = clamp_levels m t"
  by (induction m t rule: clamp_levels.induct) simp

text \<open>
  C9. The heading-level clamp with \<open>max_level = 4\<close> never raises, and for every tree it
  returns the tree in which every heading of a level above 4, wherever it stands, has the
  level 4 and all else is as before; a second run on that tree returns it unchanged, so
  two runs give the tree of one run. In particular a heading of level 6 inside a document
  has level 4 after the run.
\<close>

theorem MaxHeadingLevel_idempotent:
  "MaxHeadingLevel_process_input t 4 = Inr (clamp_levels 4 t) \<and>
   MaxHeadingLevel_process_input (clamp_levels 4 t) 4 = Inr (clamp_levels 4 t) \<and>
   clamp_levels 4 (Node NODE_HEADING 6 lit ln cs) =
     Node NODE_HEADING 4 lit ln (map (clamp_levels 4) cs) \<and>
   MaxHeadingLevel_process_input
     (Node NODE_DOCUMENT 0 [] 1
        [Node NODE_PARAGRAPH 0 [] 1 [Node NODE_TEXT 0 ''p'' 1 []],
         Node NODE_HEADING 6 [] 3 [Node NODE_TEXT 0 ''a'' 3 []],
         Node NODE_HEADING 2 [] 5 [Node NODE_TEXT 0 ''b'' 5 []]]) 4 =
     Inr (Node NODE_DOCUMENT 0 [] 1
        [Node NODE_PARAGRAPH 0 [] 1 [Node NODE_TEXT 0 ''p'' 1 []],
         Node NODE_HEADING 4 [] 3 [Node NODE_TEXT 0 ''a'' 3 []],
         Node NODE_HEADING 2 [] 5 [Node NODE_TEXT 0 ''b'' 5 []]])"
proof -
  have once: "MaxHeadingLevel_process_input u 4 = Inr (clamp_levels 4 u)" for u
    unfolding MaxHeadingLevel_process_input_def by (rule enforce_clamp_4(1))
  have twice: "MaxHeadingLevel_process_input (clamp_levels 4 t) 4 = Inr (clamp_levels 4 t)"
    using once[of "clamp_levels 4 t"] by (simp only: clamp_levels_idem)
  have heading: "clamp_levels 4 (Node NODE_HEADING 6 lit ln cs) =
      Node NODE_HEADING 4 lit ln (map (clamp_levels 4) cs)"
    by simp
  have doc: "MaxHeadingLevel_process_input
     (Node NODE_DOCUMENT 0 [] 1
        [Node NODE_PARAGRAPH 0 [] 1 [Node NODE_TEXT 0 ''p'' 1 []],
         Node NODE_HEADING 6 [] 3 [Node NODE_TEXT 0 ''a'' 3 []],
         Node NODE_HEADING 2 [] 5 [Node NODE_TEXT 0 ''b'' 5 []]]) 4 =
     Inr (Node NODE_DOCUMENT 0 [] 1
        [Node NODE_PARAGRAPH 0 [] 1 [Node NODE_TEXT 0 ''p'' 1 []],
         Node NODE_HEADING 4 [] 3 [Node NODE_TEXT 0 ''a'' 3 []],
         Node NODE_HEADING 2 [] 5 [Node NODE_TEXT 0 ''b'' 5 []]])"
    by (simp add: once)
  from once[of t] twice heading doc show ?thesis by blast
qed

theorem MaxHeadingLevel_idempotent_witness:
  "MaxHeadingLevel_process_input
     (Node NODE_DOCUMENT 0 [] 1 [Node NODE_HEADING 6 [] 1 [Node NODE_TEXT 0 ''a'' 1 []]]) 4 =
     Inr (Node NODE_DOCUMENT 0 [] 1 [Node NODE_HEADING 4 [] 1 [Node NODE_TEXT 0 ''a'' 1 []]]) \<and>
   MaxHeadingLevel_process_input
     (Node NODE_DOCUMENT 0 [] 1 [Node NODE_HEADING 4 [] 1 [Node NODE_TEXT 0 ''a'' 1 []]]) 4 =
     Inr (Node NODE_DOCUMENT 0 [] 1 [Node NODE_HEADING 4 [] 1 [Node NODE_TEXT 0 ''a'' 1 []]])"
  using MaxHeadingLevel_idempotent
    [of "Node NODE_DOCUMENT 0 [] 1 [Node NODE_HEADING 6 [] 1 [Node NODE_TEXT 0 ''a'' 1 []]]"
        "[]" 1 "[]"]
  by simp

text \<open>
  C5. What the code does where the claim asks for an error: with \<open>max_level = 0\<close> the run
  never raises, for any tree (the library does not store the level 0, so the tree comes
  back as it was), and with \<open>max_level = 7\<close> a tree without headings is returned without
  an error; the error is raised only at a heading, for \<open>max_level\<close> above 6 or below 0.
\<close>

theorem MaxHeadingLevel_bound_check:
  "MaxHeadingLevel_process_input t 0 = Inr t \<and>
   MaxHeadingLevel_process_input
     (Node NODE_DOCUMENT 0 [] 1 [Node NODE_PARAGRAPH 0 [] 1 [Node NODE_TEXT 0 ''a'' 1 []]]) 7 =
     Inr (Node NODE_DOCUMENT 0 [] 1 [Node NODE_PARAGRAPH 0 [] 1 [Node NODE_TEXT 0 ''a'' 1 []]]) \<and>
   MaxHeadingLevel_process_input
     (Node NODE_DOCUMENT 0 [] 1 [Node NODE_HEADING 1 [] 1 [Node NODE_TEXT 0 ''a'' 1 []]]) 7 =
     Inl ValueError"
  by (simp add: MaxHeadingLevel_process_input_def enforce_zero get_heading_level_def)

section \<open>Properties of the heading collectors\<close>

text \<open>
  C10. The two heading collectors differ on a document with one heading that holds a
  text node: the module-level function returns the record, the method raises
  \<open>AttributeError\<close>, since it decodes a string that \<open>get_literal\<close> has decoded already.
\<close>

theorem get_headings_differ:
  "get_headings
     (Node NODE_DOCUMENT 0 [] 1 [Node NODE_HEADING 1 [] 1 [Node NODE_TEXT 0 ''A'' 1 []]]) =
     Inr [Some \<lparr>h_level = 1, h_text = PyStr ''A'', h_line_number = 1\<rparr>] \<and>
   HeadingCollector_get_headings
     (Node NODE_DOCUMENT 0 [] 1 [Node NODE_HEADING 1 [] 1 [Node NODE_TEXT 0 ''A'' 1 []]]) =
     Inl AttributeError"
  by (simp add: get_headings_def HeadingCollector_get_headings_def get_heading_info_def
      HeadingCollector_get_heading_info_def get_literal_def node_get_literal_def
      has_literal_def get_heading_level_def get_start_line_def)

section \<open>Properties of the processor registry\<close>

text \<open>
  C4. Deregistering by name raises \<open>TypeError\<close> at both hook points for every state of
  the registry and every name, also right after the name was registered: the registry is
  a list, and \<open>pop\<close> wants an integer.
\<close>

theorem deregister_raises:
  "deregister_text_processor procs name = Inl TypeError \<and>
   deregister_ast_processor procs name = Inl TypeError \<and>
   (\<forall>procs1. register_text_processor procs name processor index = Inr procs1 \<longrightarrow>
      deregister_text_processor procs1 name = Inl TypeError) \<and>
   (\<forall>procs1. register_ast_processor procs name processor index = Inr procs1 \<longrightarrow>
      deregister_ast_processor procs1 name = Inl TypeError)"
  by (simp add: deregister_text_processor_def deregister_ast_processor_def)

theorem deregister_raises_witness:
  "register_text_processor CommonMark_init ''toc'' (1::nat) None =
     Inr (CommonMark_init(before_parse := [\<lparr>entry_name = ''toc'', entry_processor = 1\<rparr>])) \<and>
   deregister_text_processor
     (CommonMark_init(before_parse := [\<lparr>entry_name = ''toc'', entry_processor = (1::nat)\<rparr>]))
     ''toc'' = Inl TypeError \<and>
   register_ast_processor CommonMark_init ''toc'' (1::nat) (Some 0) =
     Inr (CommonMark_init(after_parse := [\<lparr>entry_name = ''toc'', entry_processor = 1\<rparr>])) \<and>
   deregister_ast_processor
     (CommonMark_init(after_parse := [\<lparr>entry_name = ''toc'', entry_processor = (1::nat)\<rparr>]))
     ''toc'' = Inl TypeError"
proof -
  have t: "register_text_processor CommonMark_init ''toc'' (1::nat) None =
     Inr (CommonMark_init(before_parse := [\<lparr>entry_name = ''toc'', entry_processor = 1\<rparr>]))"
    by (simp add: register_text_processor_def register_processor_def CommonMark_init_def)
  have a: "register_ast_processor CommonMark_init ''toc'' (1::nat) (Some 0) =
     Inr (CommonMark_init(after_parse := [\<lparr>entry_name = ''toc'', entry_processor = 1\<rparr>]))"
    by (simp add: register_ast_processor_def register_processor_def CommonMark_init_def
        list_insert_def fits_ssize_def)
  show ?thesis
    using t a deregister_raises
      [where procs = "CommonMark_init :: nat processors" and name = "''toc''"
         and processor = 1 and index = None]
      deregister_raises
      [where procs = "CommonMark_init :: nat processors" and name = "''toc''"
         and processor = 1 and index = "Some 0"]
    by blast
qed

text \<open>
  C6 as stated fails: registering the name \<open>toc\<close> a second time at the pre-parse hook
  raises nothing and leaves two entries named \<open>toc\<close> in the registry.
\<close>

theorem register_duplicate_counterexample:
  "register_text_processor
     (CommonMark_init(before_parse := [\<lparr>entry_name = ''toc'', entry_processor = (1::nat)\<rparr>]))
     ''toc'' 2 None =
   Inr (CommonMark_init
          (before_parse := [\<lparr>entry_name = ''toc'', entry_processor = 1\<rparr>,
                            \<lparr>entry_name = ''toc'', entry_processor = 2\<rparr>]))"
  by (simp add: register_text_processor_def register_processor_def)

text \<open>An index that does not fit the C type is the one way a registration raises.\<close>

lemma register_overflow:
  "register_processor procs name processor entrypoint index = Inl e \<longleftrightarrow>
     e = OverflowError \<and> (\<exists>i. index = Some i \<and> \<not> fits_ssize i)"
  by (cases index) (auto simp: register_processor_def list_insert_def Let_def)

text \<open>
  C6, amended. For every hook point, registering a processor under a name that is
  already registered there succeeds, for every index that a list takes (no index, or one
  in the range of the C type): the registry of the hook point then holds the entries
  that were there, all of them and in their order, and the new entry, which stands at the
  end when no index is given, before the position \<open>i\<close> for an index \<open>i \<ge> 0\<close> (at the end
  when \<open>i\<close> is beyond the list) and before the position \<open>i\<close> counted from the end for an
  index \<open>i < 0\<close> (at the front when that is before the list); so the registry holds one more
  entry with that name, and the other hook point is left as it is.
\<close>

theorem register_duplicate_kept:
  assumes "name \<in> entry_name ` set (procs entrypoint)"
    and "index = None \<or> (\<exists>i. index = Some i \<and> fits_ssize i)"
  shows "\<exists>items.
           register_processor procs name processor entrypoint index =
             Inr (procs(entrypoint := items)) \<and>
           (index = None \<longrightarrow>
              items = procs entrypoint @ [\<lparr>entry_name = name, entry_processor = processor\<rparr>]) \<and>
           (\<forall>i. index = Some i \<and> 0 \<le> i \<longrightarrow>
              items = take (nat i) (procs entrypoint) @
                      [\<lparr>entry_name = name, entry_processor = processor\<rparr>] @
                      drop (nat i) (procs entrypoint)) \<and>
           (\<forall>i. index = Some i \<and> i < 0 \<longrightarrow>
              items = take (length (procs entrypoint) - nat (- i)) (procs entrypoint) @
                      [\<lparr>entry_name = name, entry_processor = processor\<rparr>] @
                      drop (length (procs entrypoint) - nat (- i)) (procs entrypoint)) \<and>
           length (filter (\<lambda>e. entry_name e = name) items) =
             Suc (length (filter (\<lambda>e. entry_name e = name) (procs entrypoint)))"
proof -
  define item where "item = \<lparr>entry_name = name, entry_processor = processor\<rparr>"
  define old where "old = procs entrypoint"
  have name: "entry_name item = name" by (simp add: item_def)
  have count: "length (filter (\<lambda>e. entry_name e = name) (take j old @ [item] @ drop j old)) =
      Suc (length (filter (\<lambda>e. entry_name e = name) old))" for j
  proof -
    have "filter (\<lambda>e. entry_name e = name) old =
        filter (\<lambda>e. entry_name e = name) (take j old) @
        filter (\<lambda>e. entry_name e = name) (drop j old)"
      by (metis append_take_drop_id filter_append)
    then show ?thesis by (simp add: name)
  qed
  from assms(2) show ?thesis
  proof
    assume none: "index = None"
    have "register_processor procs name processor entrypoint index =
        Inr (procs(entrypoint := old @ [item]))"
      by (simp add: register_processor_def none item_def old_def)
    then show ?thesis
      using none by (intro exI[of _ "old @ [item]"]) (simp add: item_def old_def)
  next
    assume "\<exists>i. index = Some i \<and> fits_ssize i"
    then obtain i where some: "index = Some i" and fits: "fits_ssize i" by blast
    define j where "j = nat (if i < 0 then max 0 (int (length old) + i) else min i (int (length old)))"
    have reg: "register_processor procs name processor entrypoint index =
        Inr (procs(entrypoint := take j old @ [item] @ drop j old))"
      by (simp add: register_processor_def some list_insert_def fits Let_def item_def old_def j_def)
    have pos: "0 \<le> i \<Longrightarrow> take j old = take (nat i) old \<and> drop j old = drop (nat i) old"
      by (auto simp: j_def min_def)
    have neg: "i < 0 \<Longrightarrow> j = length old - nat (- i)"
      by (auto simp: j_def max_def)
    show ?thesis
      using reg some pos neg count[of j]
      by (intro exI[of _ "take j old @ [item] @ drop j old"]) (auto simp: item_def old_def)
  qed
qed

theorem register_duplicate_kept_witness:
  "''toc'' \<in> entry_name ` set [\<lparr>entry_name = ''toc'', entry_processor = (1::nat)\<rparr>] \<and>
   fits_ssize 0 \<and>
   register_processor (\<lambda>e. [\<lparr>entry_name = ''toc'', entry_processor = (1::nat)\<rparr>])
     ''toc'' 2 after_parse (Some 0) =
     Inr ((\<lambda>e. [\<lparr>entry_name = ''toc'', entry_processor = 1\<rparr>])
            (after_parse := [\<lparr>entry_name = ''toc'', entry_processor = 2\<rparr>,
                             \<lparr>entry_name = ''toc'', entry_processor = 1\<rparr>]))"
proof -
  have h1: "''toc'' \<in> entry_name `
      set ((\<lambda>e. [\<lparr>entry_name = ''toc'', entry_processor = (1::nat)\<rparr>]) after_parse)"
    by simp
  have f: "fits_ssize 0" by (simp add: fits_ssize_def)
  have h2: "Some (0::int) = None \<or> (\<exists>i. Some (0::int) = Some i \<and> fits_ssize i)"
    using f by simp
  obtain items where
    reg: "register_processor (\<lambda>e. [\<lparr>entry_name = ''toc'', entry_processor = (1::nat)\<rparr>])
        ''toc'' 2 after_parse (Some 0) =
        Inr ((\<lambda>e. [\<lparr>entry_name = ''toc'', entry_processor = 1\<rparr>])(after_parse := items))"
    and items: "\<forall>i. Some (0::int) = Some i \<and> 0 \<le> i \<longrightarrow>
        items = take (nat i) [\<lparr>entry_name = ''toc'', entry_processor = (1::nat)\<rparr>] @
                [\<lparr>entry_name = ''toc'', entry_processor = 2\<rparr>] @
                drop (nat i) [\<lparr>entry_name = ''toc'', entry_processor = 1\<rparr>]"
    using register_duplicate_kept
      [where name = "''toc''" and entrypoint = after_parse and processor = 2
         and index = "Some 0"
         and procs = "\<lambda>e. [\<lparr>entry_name = ''toc'', entry_processor = (1::nat)\<rparr>]", OF h1 h2]
    by auto
  from items have "items = [\<lparr>entry_name = ''toc'', entry_processor = 2\<rparr>,
                            \<lparr>entry_name = ''toc'', entry_processor = 1\<rparr>]"
    by simp
  with reg h1 f show ?thesis by simp
qed

section \<open>Properties of the heading pass of the table of contents\<close>

text \<open>
  C1. With \<open>inject\<close> true and \<open>max_depth = 2\<close>, a heading of level 3 at line 5 with the
  text \<open>Deep\<close> is not left as it is: it is replaced by an html block with the literal
  \<open><h3 id="5-"></h3>\<close>, and no record is collected for it.
\<close>

theorem set_heading_attributes_replaces_deep_heading:
  "set_heading_attributes True
     (Node NODE_DOCUMENT 0 [] 1 [Node NODE_HEADING 3 [] 5 [Node NODE_TEXT 0 ''Deep'' 5 []]]) 2 =
   Inr (Some (Node NODE_DOCUMENT 0 [] 1
               [Node NODE_HTML_BLOCK 0 (''<h3 id='' @ [CHR 0x22] @ ''5-'' @ [CHR 0x22] @ ''></h3>'') 0 []]),
        [])"
  by (simp add: set_heading_attributes_def heading_exit_def get_heading_level_def
      get_start_line_def make_html_node_def slugify_str_def str_int_def digit_char_def
      py_strip_def replace_char_def)

text \<open>
  C2. With \<open>max_depth = 6\<close>, a heading of level 1 that holds the text nodes \<open>Hello \<close> and
  \<open>world\<close> contributes two records, one per text node, and a heading without a text node
  contributes none.
\<close>

theorem set_heading_attributes_record_per_text:
  "set_heading_attributes False
     (Node NODE_DOCUMENT 0 [] 1
        [Node NODE_HEADING 1 [] 1
           [Node NODE_TEXT 0 ''Hello '' 1 [],
            Node NODE_EMPH 0 [] 1 [Node NODE_TEXT 0 ''world'' 1 []]],
         Node NODE_HEADING 2 [] 3 [Node NODE_CODE 0 ''x'' 3 []]]) 6 =
   Inr (Some (Node NODE_DOCUMENT 0 [] 1
                [Node NODE_HEADING 1 [] 1
                   [Node NODE_TEXT 0 ''Hello '' 1 [],
                    Node NODE_EMPH 0 [] 1 [Node NODE_TEXT 0 ''world'' 1 []]],
                 Node NODE_HEADING 2 [] 3 [Node NODE_CODE 0 ''x'' 3 []]]),
        [\<lparr>h_level = 1, h_text = PyStr ''Hello '', h_line_number = 1\<rparr>,
         \<lparr>h_level = 1, h_text = PyStr ''world'', h_line_number = 1\<rparr>])"
  by (simp add: set_heading_attributes_def heading_exit_def get_heading_level_def
      get_start_line_def get_literal_def node_get_literal_def has_literal_def)

section \<open>Properties of the nesting of the table of contents\<close>

lemma nearest_below_SomeD:
  "nearest_below lv L i = Some j \<Longrightarrow> j < i \<and> lv j < L"
  by (induction i) (auto split: if_splits)

lemma nearest_below_iff:
  "nearest_below lv L i = Some j \<longleftrightarrow>
     j < i \<and> lv j < L \<and> (\<forall>k. j < k \<and> k < i \<longrightarrow> L \<le> lv k)"
proof (induction i)
  case 0
  then show ?case by simp
next
  case (Suc i)
  show ?case
  proof (cases "lv i < L")
    case True
    then show ?thesis
      by (auto simp: less_Suc_eq)
  next
    case False
    then show ?thesis
      using Suc by (auto simp: less_Suc_eq)
  qed
qed

lemma nearest_below_None_iff:
  "nearest_below lv L i = None \<longleftrightarrow> (\<forall>k<i. L \<le> lv k)"
  by (induction i) (auto simp: less_Suc_eq)

lemma open_parents_set:
  "p \<in> set (open_parents lv L i) \<Longrightarrow> lv p < L \<and> p < i"
proof (induction i arbitrary: L)
  case 0
  then show ?case by simp
next
  case (Suc i)
  then show ?case
    by (fastforce split: if_splits simp: less_Suc_eq)
qed

lemma open_parents_sorted:
  "sorted_wrt (\<lambda>a b. lv a < lv b) (open_parents lv L i)"
proof (induction i arbitrary: L)
  case 0
  then show ?case by simp
next
  case (Suc i)
  then show ?case
    by (auto simp: sorted_wrt_append dest: open_parents_set)
qed

lemma open_parents_filter:
  "L' \<le> L \<Longrightarrow> filter (\<lambda>p. lv p < L') (open_parents lv L i) = open_parents lv L' i"
proof (induction i arbitrary: L L')
  case 0
  then show ?case by simp
next
  case (Suc i)
  show ?case
  proof (cases "lv i < L")
    case inL: True
    show ?thesis
    proof (cases "lv i < L'")
      case True
      have "filter (\<lambda>p. lv p < L') (open_parents lv (lv i) i) = open_parents lv (lv i) i"
        using True by (auto simp: filter_id_conv dest: open_parents_set)
      then show ?thesis using True inL by simp
    next
      case False
      then have "L' \<le> lv i" by simp
      from Suc.IH[OF this] show ?thesis using False inL by simp
    qed
  next
    case False
    with Suc.prems have "\<not> lv i < L'" by simp
    then show ?thesis using False Suc.IH[OF Suc.prems] by simp
  qed
qed

lemma open_parents_Nil_iff:
  "open_parents lv L i = [] \<longleftrightarrow> nearest_below lv L i = None"
  by (induction i) auto

lemma open_parents_last:
  "nearest_below lv L i = Some j \<Longrightarrow> last (open_parents lv L i) = j"
  by (induction i) (auto split: if_splits)

lemma index_of_first:
  "i < length xs \<Longrightarrow> P (xs ! i) \<Longrightarrow> (\<forall>k<i. \<not> P (xs ! k)) \<Longrightarrow> index_of P xs = i"
proof (induction xs arbitrary: i)
  case Nil
  then show ?case by simp
next
  case (Cons x xs)
  show ?case
  proof (cases i)
    case 0
    then show ?thesis using Cons.prems by simp
  next
    case (Suc i')
    have "\<not> P x" using Cons.prems(3) Suc by force
    moreover have "index_of P xs = i'"
      using Cons.prems Suc by (intro Cons.IH) auto
    ultimately show ?thesis using Suc by simp
  qed
qed

lemma pop_at_sorted:
  assumes "sorted_wrt P xs"
  shows "sorted_wrt P (pop_at i xs)"
proof -
  have "sorted_wrt P (take i xs @ drop i xs)" using assms by simp
  then have a: "sorted_wrt P (take i xs)"
    and b: "\<forall>x\<in>set (take i xs). \<forall>y\<in>set (drop i xs). P x y"
    unfolding sorted_wrt_append by blast+
  have c: "sorted_wrt P (drop (Suc i) xs)" using assms by (rule sorted_wrt_drop)
  have "set (drop (Suc i) xs) \<subseteq> set (drop i xs)"
    by (rule set_drop_subset_set_drop) simp
  with a b c show ?thesis
    unfolding pop_at_def sorted_wrt_append by blast
qed

lemma pop_parents_filter:
  assumes refl: "\<And>a. eq a a"
    and lev: "\<And>a b. eq a b \<Longrightarrow> lv a = lv b"
  shows "sorted_wrt (\<lambda>a b. lv a < lv b) ps \<Longrightarrow> n \<le> length ps \<Longrightarrow>
     pop_parents eq lv level n ps = filter (\<lambda>p. \<not> level \<le> lv p) (take n ps) @ drop n ps"
proof (induction n arbitrary: ps)
  case 0
  then show ?case by simp
next
  case (Suc n)
  then have n: "n < length ps" by simp
  have idx: "index_of (eq (ps ! n)) ps = n"
  proof (rule index_of_first[OF n])
    show "eq (ps ! n) (ps ! n)" by (rule refl)
    show "\<forall>k<n. \<not> eq (ps ! n) (ps ! k)"
    proof (intro allI impI notI)
      fix k assume "k < n" "eq (ps ! n) (ps ! k)"
      then have "lv (ps ! n) = lv (ps ! k)" using lev by blast
      moreover have "lv (ps ! k) < lv (ps ! n)"
        using Suc.prems(1) \<open>k < n\<close> n by (simp add: sorted_wrt_iff_nth_less)
      ultimately show False by simp
    qed
  qed
  have tk: "take (Suc n) ps = take n ps @ [ps ! n]"
    using n by (simp add: take_Suc_conv_app_nth)
  show ?case
  proof (cases "level \<le> lv (ps ! n)")
    case True
    let ?ps' = "pop_at n ps"
    have s': "sorted_wrt (\<lambda>a b. lv a < lv b) ?ps'"
      by (rule pop_at_sorted[OF Suc.prems(1)])
    have l': "n \<le> length ?ps'" using n by (simp add: pop_at_def)
    have "pop_parents eq lv level (Suc n) ps = pop_parents eq lv level n ?ps'"
      using n True idx by (simp add: Let_def)
    also have "\<dots> = filter (\<lambda>p. \<not> level \<le> lv p) (take n ?ps') @ drop n ?ps'"
      by (rule Suc.IH[OF s' l'])
    also have "take n ?ps' = take n ps" using n by (simp add: pop_at_def)
    also have "drop n ?ps' = drop (Suc n) ps" using n by (simp add: pop_at_def)
    finally show ?thesis using True by (simp add: tk)
  next
    case False
    have "pop_parents eq lv level (Suc n) ps = pop_parents eq lv level n ps"
      using n False by (simp add: Let_def)
    also have "\<dots> = filter (\<lambda>p. \<not> level \<le> lv p) (take n ps) @ drop n ps"
      using Suc.IH[OF Suc.prems(1)] n by simp
    finally show ?thesis using False n by (simp add: tk Cons_nth_drop_Suc)
  qed
qed

lemma item_value_level:
  "item_value toc_list kids a = item_value toc_list kids b \<Longrightarrow>
   h_level (toc_list ! a) = h_level (toc_list ! b)"
proof -
  have info: "item_info (item_value toc_list kids c) = toc_list ! c" for c
    by (subst item_value.simps) simp
  assume "item_value toc_list kids a = item_value toc_list kids b"
  then have "item_info (item_value toc_list kids a) = item_info (item_value toc_list kids b)"
    by simp
  then show ?thesis by (simp add: info)
qed

lemma pop_parents_open:
  assumes "L' \<le> L"
  shows "pop_parents
           (\<lambda>a b. item_value toc_list kids a = item_value toc_list kids b)
           (\<lambda>a. h_level (toc_list ! a)) L'
           (length (open_parents (\<lambda>a. h_level (toc_list ! a)) L i))
           (open_parents (\<lambda>a. h_level (toc_list ! a)) L i) =
         open_parents (\<lambda>a. h_level (toc_list ! a)) L' i"
proof -
  let ?lv = "\<lambda>a. h_level (toc_list ! a)"
  let ?ps = "open_parents ?lv L i"
  have "pop_parents (\<lambda>a b. item_value toc_list kids a = item_value toc_list kids b) ?lv L'
          (length ?ps) ?ps =
        filter (\<lambda>p. \<not> L' \<le> ?lv p) (take (length ?ps) ?ps) @ drop (length ?ps) ?ps"
    by (rule pop_parents_filter) (auto intro: item_value_level open_parents_sorted)
  also have "\<dots> = filter (\<lambda>p. ?lv p < L') ?ps"
    by (simp add: not_le)
  also have "\<dots> = open_parents ?lv L' i"
    by (rule open_parents_filter[OF assms])
  finally show ?thesis .
qed

lemma nest_init_expected:
  "nest_init toc_list = nest_expected (\<lambda>a. h_level (toc_list ! a)) 0"
  by (simp add: nest_init_def nest_expected_def fun_eq_iff)

lemma children_of_fresh:
  "filter (\<lambda>k. nearest_below lv (lv k) k = Some (Suc m)) [0..<Suc m] = []"
  by (auto simp: filter_empty_conv dest: nearest_below_SomeD)

lemma nest_step_expected:
  "nest_step toc_list (nest_expected (\<lambda>a. h_level (toc_list ! a)) m) (Suc m) =
   nest_expected (\<lambda>a. h_level (toc_list ! a)) (Suc m)"
proof -
  let ?lv = "\<lambda>a. h_level (toc_list ! a)"
  let ?np = "\<lambda>k. nearest_below ?lv (?lv k) k"
  let ?s = "nest_expected ?lv m"
  have s0: "?s\<lparr>children_of := (children_of ?s)(Suc m := [])\<rparr> = ?s"
    using children_of_fresh[of ?lv m] by (simp add: nest_expected_def fun_eq_iff)
  consider (lt) "?lv (Suc m) < ?lv m" | (eq) "?lv (Suc m) = ?lv m" | (gt) "?lv m < ?lv (Suc m)"
    by linarith
  then show ?thesis
  proof cases
    case gt
    have np: "?np (Suc m) = Some m" using gt by simp
    have op: "open_parents ?lv (?lv (Suc m)) (Suc m) = open_parents ?lv (?lv m) m @ [m]"
      using gt by simp
    show ?thesis
      unfolding nest_step_def s0 Let_def
      using gt np op by (simp add: nest_expected_def fun_eq_iff)
  next
    case eq
    have np: "?np (Suc m) = nearest_below ?lv (?lv m) m" using eq by simp
    have op: "open_parents ?lv (?lv (Suc m)) (Suc m) = open_parents ?lv (?lv m) m"
      using eq by simp
    show ?thesis
    proof (cases "nearest_below ?lv (?lv m) m")
      case None
      then show ?thesis
        unfolding nest_step_def s0 Let_def
        using eq np op open_parents_Nil_iff[of ?lv "?lv m" m]
        by (simp add: nest_expected_def fun_eq_iff)
    next
      case (Some j)
      then show ?thesis
        unfolding nest_step_def s0 Let_def
        using eq np op open_parents_Nil_iff[of ?lv "?lv m" m] open_parents_last[OF Some]
        by (simp add: nest_expected_def fun_eq_iff)
    qed
  next
    case lt
    have np: "?np (Suc m) = nearest_below ?lv (?lv (Suc m)) m" using lt by simp
    have op: "open_parents ?lv (?lv (Suc m)) (Suc m) = open_parents ?lv (?lv (Suc m)) m"
      using lt by simp
    have pop: "pop_parents
           (\<lambda>a b. item_value toc_list (children_of ?s) a = item_value toc_list (children_of ?s) b)
           ?lv (?lv (Suc m)) (length (open_parents ?lv (?lv m) m)) (open_parents ?lv (?lv m) m) =
         open_parents ?lv (?lv (Suc m)) m"
      by (rule pop_parents_open) (use lt in simp)
    have nil: "open_parents ?lv (?lv m) m = [] \<Longrightarrow> open_parents ?lv (?lv (Suc m)) m = []"
      using open_parents_filter[of "?lv (Suc m)" "?lv m" ?lv m] lt by auto
    have pl: "(if open_parents ?lv (?lv m) m \<noteq> []
          then pop_parents
           (\<lambda>a b. item_value toc_list (children_of ?s) a = item_value toc_list (children_of ?s) b)
           ?lv (?lv (Suc m)) (length (open_parents ?lv (?lv m) m)) (open_parents ?lv (?lv m) m)
          else open_parents ?lv (?lv m) m) = open_parents ?lv (?lv (Suc m)) m"
      using pop nil by auto
    have pl': "parent_list ?s = open_parents ?lv (?lv m) m" "last_level ?s = ?lv m"
      by (simp_all add: nest_expected_def)
    show ?thesis
    proof (cases "nearest_below ?lv (?lv (Suc m)) m")
      case None
      then show ?thesis
        unfolding nest_step_def s0 Let_def pl' pl
        using lt np op open_parents_Nil_iff[of ?lv "?lv (Suc m)" m]
        by (simp add: nest_expected_def fun_eq_iff)
    next
      case (Some j)
      then show ?thesis
        unfolding nest_step_def s0 Let_def pl' pl
        using lt np op open_parents_Nil_iff[of ?lv "?lv (Suc m)" m] open_parents_last[OF Some]
        by (simp add: nest_expected_def fun_eq_iff)
    qed
  qed
qed

lemma nest_fold_expected:
  "foldl (nest_step toc_list) (nest_init toc_list) [1..<Suc m] =
   nest_expected (\<lambda>a. h_level (toc_list ! a)) m"
proof (induction m)
  case 0
  then show ?case by (simp add: nest_init_expected)
next
  case (Suc m)
  have "[1..<Suc (Suc m)] = [1..<Suc m] @ [Suc m]" by simp
  then show ?case
    using Suc by (simp only: foldl_append foldl.simps nest_step_expected)
qed

lemma nest_final_expected:
  assumes "toc_list \<noteq> []"
  shows "nest_final toc_list = nest_expected (\<lambda>a. h_level (toc_list ! a)) (length toc_list - 1)"
proof -
  obtain m where m: "length toc_list = Suc m"
    using assms by (cases toc_list) auto
  show ?thesis
    unfolding nest_final_def m using nest_fold_expected[of toc_list m] by simp
qed

lemma nearest_lower_iff:
  "nearest_lower toc_list i = Some j \<longleftrightarrow>
     j < i \<and> h_level (toc_list ! j) < h_level (toc_list ! i) \<and>
     (\<forall>k. j < k \<and> k < i \<longrightarrow> h_level (toc_list ! i) \<le> h_level (toc_list ! k))"
  unfolding nearest_lower_def by (rule nearest_below_iff)

lemma nearest_lower_None_iff:
  "nearest_lower toc_list i = None \<longleftrightarrow>
     (\<forall>k<i. h_level (toc_list ! i) \<le> h_level (toc_list ! k))"
  unfolding nearest_lower_def by (rule nearest_below_None_iff)

text \<open>
  C8. The list \<open>[H1 A, H2 B, H2 C, H1 D]\<close> nests as the two roots \<open>A\<close>, with the children
  \<open>B\<close> and \<open>C\<close> in that order, and \<open>D\<close>, without children. For every list of heading
  records that is not empty, the forest returned is the one in which the roots are the
  headings without a preceding heading of strictly lower level, and the children of a
  heading are the headings whose nearest preceding heading of strictly lower level it is,
  both in the order of the list.
\<close>

theorem nest_toc_items_nearest_lower:
  assumes "toc_list \<noteq> []"
  shows "nest_toc_items
           [\<lparr>h_level = 1, h_text = PyStr ''A'', h_line_number = 1\<rparr>,
            \<lparr>h_level = 2, h_text = PyStr ''B'', h_line_number = 2\<rparr>,
            \<lparr>h_level = 2, h_text = PyStr ''C'', h_line_number = 3\<rparr>,
            \<lparr>h_level = 1, h_text = PyStr ''D'', h_line_number = 4\<rparr>] =
         [Toc \<lparr>h_level = 1, h_text = PyStr ''A'', h_line_number = 1\<rparr>
            [Toc \<lparr>h_level = 2, h_text = PyStr ''B'', h_line_number = 2\<rparr> [],
             Toc \<lparr>h_level = 2, h_text = PyStr ''C'', h_line_number = 3\<rparr> []],
          Toc \<lparr>h_level = 1, h_text = PyStr ''D'', h_line_number = 4\<rparr> []] \<and>
         nest_toc_items toc_list =
           map (item_value toc_list
                  (\<lambda>j. filter (\<lambda>k. nearest_lower toc_list k = Some j) [0..<length toc_list]))
               (filter (\<lambda>k. nearest_lower toc_list k = None) [0..<length toc_list])"
proof
  show "nest_toc_items
           [\<lparr>h_level = 1, h_text = PyStr ''A'', h_line_number = 1\<rparr>,
            \<lparr>h_level = 2, h_text = PyStr ''B'', h_line_number = 2\<rparr>,
            \<lparr>h_level = 2, h_text = PyStr ''C'', h_line_number = 3\<rparr>,
            \<lparr>h_level = 1, h_text = PyStr ''D'', h_line_number = 4\<rparr>] =
         [Toc \<lparr>h_level = 1, h_text = PyStr ''A'', h_line_number = 1\<rparr>
            [Toc \<lparr>h_level = 2, h_text = PyStr ''B'', h_line_number = 2\<rparr> [],
             Toc \<lparr>h_level = 2, h_text = PyStr ''C'', h_line_number = 3\<rparr> []],
          Toc \<lparr>h_level = 1, h_text = PyStr ''D'', h_line_number = 4\<rparr> []]"
    by code_simp
next
  obtain m where m: "length toc_list = Suc m"
    using assms by (cases toc_list) auto
  have "nest_final toc_list = nest_expected (\<lambda>a. h_level (toc_list ! a)) m"
    using nest_final_expected[OF assms] m by simp
  then show "nest_toc_items toc_list =
           map (item_value toc_list
                  (\<lambda>j. filter (\<lambda>k. nearest_lower toc_list k = Some j) [0..<length toc_list]))
               (filter (\<lambda>k. nearest_lower toc_list k = None) [0..<length toc_list])"
    by (simp add: nest_toc_items_def nest_expected_def nearest_lower_def m)
qed

theorem nest_toc_items_nearest_lower_witness:
  "[\<lparr>h_level = 1, h_text = PyStr ''A'', h_line_number = 1\<rparr>,
    \<lparr>h_level = 3, h_text = PyStr ''B'', h_line_number = 2\<rparr>,
    \<lparr>h_level = 2, h_text = PyStr ''C'', h_line_number = 3\<rparr>] \<noteq> [] \<and>
   nest_toc_items
     [\<lparr>h_level = 1, h_text = PyStr ''A'', h_line_number = 1\<rparr>,
      \<lparr>h_level = 3, h_text = PyStr ''B'', h_line_number = 2\<rparr>,
      \<lparr>h_level = 2, h_text = PyStr ''C'', h_line_number = 3\<rparr>] =
   [Toc \<lparr>h_level = 1, h_text = PyStr ''A'', h_line_number = 1\<rparr>
      [Toc \<lparr>h_level = 3, h_text = PyStr ''B'', h_line_number = 2\<rparr> [],
       Toc \<lparr>h_level = 2, h_text = PyStr ''C'', h_line_number = 3\<rparr> []]]"
proof -
  let ?xs = "[\<lparr>h_level = 1, h_text = PyStr ''A'', h_line_number = 1\<rparr>,
    \<lparr>h_level = 3, h_text = PyStr ''B'', h_line_number = 2\<rparr>,
    \<lparr>h_level = 2, h_text = PyStr ''C'', h_line_number = 3\<rparr>]"
  have h: "?xs \<noteq> []"
    by simp
  have e: "nest_toc_items ?xs =
      map (item_value ?xs (\<lambda>j. filter (\<lambda>k. nearest_lower ?xs k = Some j) [0..<length ?xs]))
        (filter (\<lambda>k. nearest_lower ?xs k = None) [0..<length ?xs])"
    using nest_toc_items_nearest_lower [OF h] by (rule conjunct2)
  have v: "map (item_value ?xs (\<lambda>j. filter (\<lambda>k. nearest_lower ?xs k = Some j) [0..<length ?xs]))
        (filter (\<lambda>k. nearest_lower ?xs k = None) [0..<length ?xs]) =
     [Toc \<lparr>h_level = 1, h_text = PyStr ''A'', h_line_number = 1\<rparr>
      [Toc \<lparr>h_level = 3, h_text = PyStr ''B'', h_line_number = 2\<rparr> [],
       Toc \<lparr>h_level = 2, h_text = PyStr ''C'', h_line_number = 3\<rparr> []]]"
    by code_simp
  from e v have "nest_toc_items ?xs =
     [Toc \<lparr>h_level = 1, h_text = PyStr ''A'', h_line_number = 1\<rparr>
      [Toc \<lparr>h_level = 3, h_text = PyStr ''B'', h_line_number = 2\<rparr> [],
       Toc \<lparr>h_level = 2, h_text = PyStr ''C'', h_line_number = 3\<rparr> []]]"
    by (rule trans)
  with h show ?thesis by (rule conjI)
qed

section \<open>Properties of the metadata extractor\<close>

text \<open>
  C3. On the text \<open>---\nfoo: bar\n---\nbody\n\<close> the extractor with the default
  loader returns the output text \<open>body\n\<close> and the data with the one key \<open>foo\<close>, whose
  value is \<open>bar\<close> with the blank that follows the colon in front: the loader strips the
  line as a whole and splits it, it does not strip the pieces.
\<close>

theorem ExtractMetadata_example:
  "ExtractMetadata_default
     (''---'' @ [CHR 0x0A] @ ''foo: bar'' @ [CHR 0x0A] @ ''---'' @ [CHR 0x0A] @
      ''body'' @ [CHR 0x0A]) =
   Inr (PyStr (''body'' @ [CHR 0x0A]), [(''foo'', '' bar'')])"
  by code_simp

text \<open>
  Whenever the pattern finds no front-matter block, the loader is called with \<open>None\<close>,
  and the default loader raises \<open>AttributeError\<close> at \<open>string.split\<close>.
\<close>

lemma ExtractMetadata_no_match:
  assumes "re_search patern doc = None"
  shows "ExtractMetadata_default doc = Inl AttributeError"
  using assms
  by (simp add: ExtractMetadata_default_def ExtractMetadata_call_def
      ExtractMetadata_process_input_def)

text \<open>
  C7. On the text \<open>body\n\<close>, which holds no front-matter block, the extractor with the
  default loader raises \<open>AttributeError\<close>; it does not return the text.
\<close>

theorem ExtractMetadata_no_front_matter:
  "re_search patern (''body'' @ [CHR 0x0A]) = None \<and>
   ExtractMetadata_default (''body'' @ [CHR 0x0A]) = Inl AttributeError"
  by code_simp

end
